theory Spec2Isabelle
  imports Complex_Main
begin

section \<open>Detection-model configuration (model.py)\<close>

text \<open>
  The module wires a configuration object into detection models supplied by the
  torchvision library. The embedding follows two conventions.

  \<^item> An object that the library hands over is a record of the attributes that model.py
    reads or writes, under the attribute's own name. Python floats are only copied, never
    computed with, and are represented by rationals; Python ints are \<open>int\<close>.
  \<^item> An object that model.py constructs is the constructor call with its positional
    arguments, in the order of the source. Parameter tensors (random initialisation, the
    bias constant of the RetinaNet logits) are outside the embedding.

  The library's model builders are parameters (record \<open>torchvision\<close>); they are taken to
  return a model. Printing is a list of lines, and the ways the code stops without
  returning are values of \<open>error\<close>.
\<close>

subsection \<open>Configuration and effects\<close>

record args =
  model :: string
  backbone :: string
  pretrained :: bool
  trainable_backbone_layers :: int
  add_authors :: bool
  custom_anchors :: bool
  size8 :: bool
  size16 :: bool
  size32 :: bool
  size64 :: bool
  size128 :: bool
  size256 :: bool
  size512 :: bool
  ar05 :: bool
  ar1 :: bool
  ar2 :: bool
  box_fg_iou_threshold :: rat
  box_bg_iou_threshold :: rat
  box_score_threshold :: rat
  box_nms_threshold :: rat
  box_detections_per_img :: int
  rpn_nms_threshold :: rat
  rpn_fg_iou_threshold :: rat
  rpn_bg_iou_threshold :: rat
  rpn_score_threshold :: rat

text \<open>\<open>Exit n\<close> is \<open>os._exit(n)\<close>; \<open>UnboundLocalError\<close> is the read of a local variable
  that no branch has assigned; \<open>IndexError\<close> is an index past the end of a list.\<close>

datatype error = Exit int | UnboundLocalError | IndexError

text \<open>A printed line: a literal, or one of the two reports of create_fasterrcnn, whose
  argument stands for \<open>str\<close> of the tuple.\<close>

datatype line =
  Text string
  | Anchors_sizes "int list list"
  | Anchors_aspect_ratios "rat list list"

text \<open>The value of the keyword argument \<open>weights\<close>: \<open>Some DEFAULT\<close> is the string
  'DEFAULT', \<open>None\<close> is Python's None.\<close>

datatype weights = DEFAULT

subsection \<open>Faster R-CNN objects\<close>

text \<open>A sub-module that is passed along untouched.\<close>

datatype nn_module = Module string

record matcher =
  high_threshold :: rat
  low_threshold :: rat

record anchor_generator =
  sizes :: "int list list"
  aspect_ratios :: "rat list list"

datatype rpn_head = RPNHead int int

record rpn =
  nms_thresh :: rat
  score_thresh :: rat
  proposal_matcher :: matcher
  anchor_generator :: anchor_generator
  head :: rpn_head

record linear =
  in_features :: int

text \<open>The box predictor of a model as the library loads it.\<close>

record loaded_predictor =
  cls_score :: linear

text \<open>The box predictors that model.py constructs.\<close>

datatype predictor =
  FastRCNNPredictor int int
  | FastRCNNPredictorWithAuthor int int int

record sampler =
  batch_size_per_image :: int
  positive_fraction :: rat

record box_coder =
  weights :: "rat list"

text \<open>The library's RoIHeads; \<open>'p\<close> is the class of its box predictor.\<close>

record 'p roi_heads =
  box_roi_pool :: nn_module
  box_head :: nn_module
  box_predictor :: 'p
  fg_bg_sampler :: sampler
  box_coder :: box_coder
  nms_thresh :: rat
  score_thresh :: rat
  proposal_matcher :: matcher
  detections_per_img :: int

text \<open>The call \<open>CustomRoIHeads(...)\<close> of line 105 with its eleven positional arguments.
  The class itself lives in custom_roi_heads.py.\<close>

datatype custom_roi_heads =
  CustomRoIHeads nn_module nn_module loaded_predictor rat rat int rat "rat list" rat rat int

text \<open>A CustomRoIHeads object: the call that built it, and the box predictor assigned to
  it afterwards (\<open>None\<close> while model.py has assigned none).\<close>

record author_heads =
  built_by :: custom_roi_heads
  box_predictor :: "predictor option"

datatype heads =
  Library_heads "predictor roi_heads"
  | Author_heads author_heads

record 'h fasterrcnn =
  roi_heads :: 'h
  rpn :: rpn

subsection \<open>RetinaNet and SSD objects\<close>

datatype conv2d = Conv2d (in_channels: int) (out_channels: int) (kernel_size: int)
  (stride: int) (padding: int)

record retinanet_classification_head =
  num_anchors :: int
  num_classes :: int
  cls_logits :: conv2d

record retinanet_head =
  classification_head :: retinanet_classification_head

record retinanet =
  head :: retinanet_head

record default_box_generator =
  num_anchors_per_location :: "int list"

record loaded_ssd_classification_head =
  module_list :: "conv2d list"

datatype ssd_classification_head = SSDClassificationHead "int list" "int list" int

record 'c ssd_head =
  classification_head :: 'c

record 'c ssd =
  anchor_generator :: default_box_generator
  head :: "'c ssd_head"

subsection \<open>The library\<close>

record torchvision =
  fasterrcnn_resnet50_fpn :: "weights option \<Rightarrow> int \<Rightarrow> loaded_predictor roi_heads fasterrcnn"
  fasterrcnn_resnet50_fpn_v2 :: "weights option \<Rightarrow> int \<Rightarrow> loaded_predictor roi_heads fasterrcnn"
  fasterrcnn_mobilenet_v3_large_fpn ::
    "weights option \<Rightarrow> int \<Rightarrow> loaded_predictor roi_heads fasterrcnn"
  retinanet_resnet50_fpn_v2 :: "weights option \<Rightarrow> retinanet"
  ssd300_vgg16 :: "weights option \<Rightarrow> loaded_ssd_classification_head ssd"

text \<open>
  torchvision's AnchorGenerator, for the one object that set_anchor constructs. The
  class is the library's: its constructor stores both arguments (each already a tuple of
  tuples here), and its method returns
  \<^verbatim>\<open>[len(s) * len(a) for s, a in zip(self.sizes, self.aspect_ratios)]\<close>.
\<close>

definition AnchorGenerator :: "int list list \<Rightarrow> rat list list \<Rightarrow> anchor_generator" where
  "AnchorGenerator s a = \<lparr>anchor_generator.sizes = s, anchor_generator.aspect_ratios = a\<rparr>"

definition num_anchors_per_location :: "anchor_generator \<Rightarrow> int list" where
  "num_anchors_per_location g =
     map (\<lambda>(s, a). int (length s) * int (length a))
       (zip (anchor_generator.sizes g) (anchor_generator.aspect_ratios g))"

subsection \<open>set_anchor\<close>

definition set_anchor :: "'h fasterrcnn \<Rightarrow> args \<Rightarrow> line list \<times> (error + 'h fasterrcnn)" where
  "set_anchor mdl args =
    (let tuple_sizes_list = [];
         tuple_aspect_ratios_list = [];
         tuple_sizes_list = (if size8 args then tuple_sizes_list @ [[8]] else tuple_sizes_list);
         tuple_sizes_list = (if size16 args then tuple_sizes_list @ [[16]] else tuple_sizes_list);
         tuple_sizes_list = (if size32 args then tuple_sizes_list @ [[32]] else tuple_sizes_list);
         tuple_sizes_list = (if size64 args then tuple_sizes_list @ [[64]] else tuple_sizes_list);
         tuple_sizes_list = (if size128 args then tuple_sizes_list @ [[128]] else tuple_sizes_list);
         tuple_sizes_list = (if size256 args then tuple_sizes_list @ [[256]] else tuple_sizes_list);
         tuple_sizes_list = (if size512 args then tuple_sizes_list @ [[512]] else tuple_sizes_list);
         tuple_aspect_ratios_list =
           (if ar05 args then tuple_aspect_ratios_list @ [1 / 2] else tuple_aspect_ratios_list);
         tuple_aspect_ratios_list =
           (if ar1 args then tuple_aspect_ratios_list @ [1] else tuple_aspect_ratios_list);
         tuple_aspect_ratios_list =
           (if ar2 args then tuple_aspect_ratios_list @ [2] else tuple_aspect_ratios_list)
     in if length tuple_sizes_list \<noteq> 5
        then ([Text ''Number of sizes must be equal to 5''], Inl (Exit 1))
        else
          let sizes = tuple_sizes_list;
              aspect_ratios = replicate (length sizes) tuple_aspect_ratios_list;
              mdl = mdl\<lparr>rpn := (rpn mdl)\<lparr>rpn.anchor_generator :=
                      (rpn.anchor_generator (rpn mdl))\<lparr>anchor_generator.sizes := sizes\<rparr>\<rparr>\<rparr>;
              mdl = mdl\<lparr>rpn := (rpn mdl)\<lparr>rpn.anchor_generator :=
                      (rpn.anchor_generator (rpn mdl))
                        \<lparr>anchor_generator.aspect_ratios := aspect_ratios\<rparr>\<rparr>\<rparr>;
              anchor_generator =
                AnchorGenerator sizes (map (\<lambda>_. tuple_aspect_ratios_list) [0..<5]);
              mdl = mdl\<lparr>rpn := (rpn mdl)\<lparr>rpn.anchor_generator := anchor_generator\<rparr>\<rparr>
          in case num_anchors_per_location anchor_generator of
               [] \<Rightarrow> ([], Inl IndexError)
             | n # _ \<Rightarrow> ([], Inr (mdl\<lparr>rpn := (rpn mdl)\<lparr>rpn.head := RPNHead 256 n\<rparr>\<rparr>)))"

subsection \<open>create_fasterrcnn\<close>

text \<open>The two attribute assignments that replace an object by one of another class:
  \<open>roi_heads.box_predictor = p\<close> and \<open>model.roi_heads = h\<close>. Every other attribute is kept.\<close>

definition set_box_predictor :: "'p roi_heads \<Rightarrow> 'q \<Rightarrow> 'q roi_heads" where
  "set_box_predictor rh p =
     \<lparr>box_roi_pool = box_roi_pool rh, box_head = box_head rh, roi_heads.box_predictor = p,
      fg_bg_sampler = fg_bg_sampler rh, box_coder = box_coder rh,
      roi_heads.nms_thresh = roi_heads.nms_thresh rh,
      roi_heads.score_thresh = roi_heads.score_thresh rh,
      roi_heads.proposal_matcher = roi_heads.proposal_matcher rh,
      detections_per_img = detections_per_img rh\<rparr>"

definition set_roi_heads :: "'h fasterrcnn \<Rightarrow> 'k \<Rightarrow> 'k fasterrcnn" where
  "set_roi_heads mdl h = \<lparr>roi_heads = h, rpn = rpn mdl\<rparr>"

definition create_fasterrcnn ::
  "int \<Rightarrow> int \<Rightarrow> loaded_predictor roi_heads fasterrcnn \<Rightarrow> args
     \<Rightarrow> line list \<times> (error + heads fasterrcnn)" where
  "create_fasterrcnn n_classes n_authors mdl args =
    (let in_features = linear.in_features (cls_score (roi_heads.box_predictor (roi_heads mdl)));
         mdl =
           (if add_authors args then
              let custom =
                    \<lparr>built_by = CustomRoIHeads
                       (box_roi_pool (roi_heads mdl)) (box_head (roi_heads mdl))
                       (roi_heads.box_predictor (roi_heads mdl))
                       (box_fg_iou_threshold args) (box_bg_iou_threshold args)
                       (batch_size_per_image (fg_bg_sampler (roi_heads mdl)))
                       (positive_fraction (fg_bg_sampler (roi_heads mdl)))
                       (weights (box_coder (roi_heads mdl)))
                       (box_score_threshold args) (box_nms_threshold args)
                       (box_detections_per_img args),
                     author_heads.box_predictor = None\<rparr>;
                  custom = custom\<lparr>author_heads.box_predictor :=
                    Some (FastRCNNPredictorWithAuthor in_features n_classes n_authors)\<rparr>
              in set_roi_heads mdl (Author_heads custom)
            else
              let rh = set_box_predictor (roi_heads mdl) (FastRCNNPredictor in_features n_classes);
                  rh = rh\<lparr>roi_heads.nms_thresh := box_nms_threshold args\<rparr>;
                  rh = rh\<lparr>roi_heads.score_thresh := box_score_threshold args\<rparr>;
                  rh = rh\<lparr>roi_heads.proposal_matcher :=
                    (roi_heads.proposal_matcher rh)\<lparr>low_threshold := box_bg_iou_threshold args\<rparr>\<rparr>;
                  rh = rh\<lparr>roi_heads.proposal_matcher :=
                    (roi_heads.proposal_matcher rh)\<lparr>high_threshold := box_fg_iou_threshold args\<rparr>\<rparr>;
                  rh = rh\<lparr>detections_per_img := box_detections_per_img args\<rparr>
              in set_roi_heads mdl (Library_heads rh));
         mdl = mdl\<lparr>rpn := (rpn mdl)\<lparr>rpn.nms_thresh := rpn_nms_threshold args\<rparr>\<rparr>;
         mdl = mdl\<lparr>rpn := (rpn mdl)\<lparr>rpn.proposal_matcher :=
                 (rpn.proposal_matcher (rpn mdl))\<lparr>low_threshold := rpn_fg_iou_threshold args\<rparr>\<rparr>\<rparr>;
         mdl = mdl\<lparr>rpn := (rpn mdl)\<lparr>rpn.proposal_matcher :=
                 (rpn.proposal_matcher (rpn mdl))\<lparr>high_threshold := rpn_bg_iou_threshold args\<rparr>\<rparr>\<rparr>;
         mdl = mdl\<lparr>rpn := (rpn mdl)\<lparr>rpn.score_thresh := rpn_score_threshold args\<rparr>\<rparr>
     in case (if custom_anchors args then set_anchor mdl args else ([], Inr mdl)) of
          (out, Inl e) \<Rightarrow> (out, Inl e)
        | (out, Inr mdl) \<Rightarrow>
            (out @ [Anchors_sizes (anchor_generator.sizes (rpn.anchor_generator (rpn mdl))),
                    Anchors_aspect_ratios
                      (anchor_generator.aspect_ratios (rpn.anchor_generator (rpn mdl)))],
             Inr mdl))"

subsection \<open>create_retinanet and create_ssd300\<close>

definition create_retinanet :: "torchvision \<Rightarrow> int \<Rightarrow> args \<Rightarrow> retinanet" where
  "create_retinanet tv n_classes args =
    (let mdl = retinanet_resnet50_fpn_v2 tv (if pretrained args then Some DEFAULT else None);
         num_anchors =
           retinanet_classification_head.num_anchors
             (retinanet_head.classification_head (retinanet.head mdl));
         mdl = mdl\<lparr>retinanet.head := (retinanet.head mdl)\<lparr>retinanet_head.classification_head :=
                 (retinanet_head.classification_head (retinanet.head mdl))
                   \<lparr>num_classes := n_classes\<rparr>\<rparr>\<rparr>;
         cls_logits = Conv2d 256 (num_anchors * n_classes) 3 1 1;
         mdl = mdl\<lparr>retinanet.head := (retinanet.head mdl)\<lparr>retinanet_head.classification_head :=
                 (retinanet_head.classification_head (retinanet.head mdl))
                   \<lparr>retinanet_classification_head.cls_logits := cls_logits\<rparr>\<rparr>\<rparr>
     in mdl)"

definition create_ssd300 :: "torchvision \<Rightarrow> int \<Rightarrow> args \<Rightarrow> ssd_classification_head ssd" where
  "create_ssd300 tv n_classes args =
    (let mdl = ssd300_vgg16 tv (if pretrained args then Some DEFAULT else None);
         num_anchors = default_box_generator.num_anchors_per_location (ssd.anchor_generator mdl);
         in_channels = [];
         in_channels =
           foldl (\<lambda>in_channels layer. in_channels @ [conv2d.in_channels layer]) in_channels
             (module_list (ssd_head.classification_head (ssd.head mdl)))
     in \<lparr>ssd.anchor_generator = ssd.anchor_generator mdl,
         ssd.head = \<lparr>ssd_head.classification_head =
           SSDClassificationHead in_channels num_anchors n_classes\<rparr>\<rparr>)"

subsection \<open>create_model\<close>

text \<open>What create_model returns: a model of one of the three architectures.\<close>

datatype detector =
  FasterRCNN "heads fasterrcnn"
  | RetinaNet retinanet
  | SSD "ssd_classification_head ssd"

text \<open>
  The local variable \<open>model\<close> of the fasterrcnn branch is an option: \<open>None\<close> while no
  backbone branch has assigned it. Line 78 reads it, as does line 88 after an
  architecture that no branch matches.
\<close>

definition create_model ::
  "torchvision \<Rightarrow> int \<Rightarrow> int \<Rightarrow> args \<Rightarrow> line list \<times> (error + detector)" where
  "create_model tv n_classes n_authors args =
    (if model args = ''fasterrcnn'' then
       (case (if backbone args = ''resnet50'' then
                Some (fasterrcnn_resnet50_fpn tv
                  (if pretrained args then Some DEFAULT else None) (trainable_backbone_layers args))
              else if backbone args = ''resnet50v2'' then
                Some (fasterrcnn_resnet50_fpn_v2 tv
                  (if pretrained args then Some DEFAULT else None) (trainable_backbone_layers args))
              else if backbone args = ''mobilenet'' then
                Some (fasterrcnn_mobilenet_v3_large_fpn tv
                  (if pretrained args then Some DEFAULT else None) (trainable_backbone_layers args))
              else None) of
          None \<Rightarrow> ([], Inl UnboundLocalError)
        | Some mdl \<Rightarrow>
            (case create_fasterrcnn n_classes n_authors mdl args of
               (out, Inl e) \<Rightarrow> (out, Inl e)
             | (out, Inr mdl) \<Rightarrow> (out, Inr (FasterRCNN mdl))))
     else if model args = ''retinanet'' then
       ([], Inr (RetinaNet (create_retinanet tv n_classes args)))
     else if model args = ''ssd'' then
       ([], Inr (SSD (create_ssd300 tv n_classes args)))
     else ([], Inl UnboundLocalError))"

subsection \<open>The vocabulary of the properties\<close>

text \<open>The sizes whose flag is set, in the order of the menu, and the aspect ratios whose
  flag is set. Their lengths count the flags that are set.\<close>

definition selected_sizes :: "args \<Rightarrow> int list" where
  "selected_sizes args =
     (if size8 args then [8] else []) @ (if size16 args then [16] else []) @
     (if size32 args then [32] else []) @ (if size64 args then [64] else []) @
     (if size128 args then [128] else []) @ (if size256 args then [256] else []) @
     (if size512 args then [512] else [])"

definition selected_aspect_ratios :: "args \<Rightarrow> rat list" where
  "selected_aspect_ratios args =
     (if ar05 args then [1 / 2] else []) @ (if ar1 args then [1] else []) @
     (if ar2 args then [2] else [])"

subsection \<open>Sample objects\<close>

text \<open>A configuration and a library on which the definitions are evaluated: the shapes
  of torchvision's fasterrcnn_resnet50_fpn, retinanet_resnet50_fpn_v2 and ssd300_vgg16.\<close>

definition example_args :: args where
  "example_args =
     \<lparr>model = ''fasterrcnn'', backbone = ''resnet50'', pretrained = True,
      trainable_backbone_layers = 3, add_authors = False, custom_anchors = False,
      size8 = False, size16 = False, size32 = True, size64 = True, size128 = True,
      size256 = True, size512 = True, ar05 = True, ar1 = True, ar2 = False,
      box_fg_iou_threshold = 3 / 5, box_bg_iou_threshold = 2 / 5,
      box_score_threshold = 1 / 10, box_nms_threshold = 9 / 20,
      box_detections_per_img = 50,
      rpn_nms_threshold = 4 / 5, rpn_fg_iou_threshold = 7 / 10,
      rpn_bg_iou_threshold = 3 / 10, rpn_score_threshold = 1 / 100\<rparr>"

definition example_fasterrcnn :: "loaded_predictor roi_heads fasterrcnn" where
  "example_fasterrcnn =
     \<lparr>roi_heads =
        \<lparr>box_roi_pool = Module ''MultiScaleRoIAlign'', box_head = Module ''TwoMLPHead'',
         roi_heads.box_predictor = \<lparr>cls_score = \<lparr>in_features = 1024\<rparr>\<rparr>,
         fg_bg_sampler = \<lparr>batch_size_per_image = 512, positive_fraction = 1 / 4\<rparr>,
         box_coder = \<lparr>weights = [10, 10, 5, 5]\<rparr>,
         roi_heads.nms_thresh = 1 / 2, roi_heads.score_thresh = 1 / 20,
         roi_heads.proposal_matcher = \<lparr>high_threshold = 1 / 2, low_threshold = 1 / 2\<rparr>,
         detections_per_img = 100\<rparr>,
      rpn =
        \<lparr>rpn.nms_thresh = 7 / 10, rpn.score_thresh = 0,
         rpn.proposal_matcher = \<lparr>high_threshold = 7 / 10, low_threshold = 3 / 10\<rparr>,
         rpn.anchor_generator =
           \<lparr>sizes = [[32], [64], [128], [256], [512]],
            aspect_ratios = [[1 / 2, 1, 2], [1 / 2, 1, 2], [1 / 2, 1, 2], [1 / 2, 1, 2],
              [1 / 2, 1, 2]]\<rparr>,
         rpn.head = RPNHead 256 3\<rparr>\<rparr>"

definition example_retinanet :: retinanet where
  "example_retinanet =
     \<lparr>retinanet.head = \<lparr>retinanet_head.classification_head =
        \<lparr>num_anchors = 9, num_classes = 91, cls_logits = Conv2d 256 819 3 1 1\<rparr>\<rparr>\<rparr>"

definition example_ssd :: "loaded_ssd_classification_head ssd" where
  "example_ssd =
     \<lparr>ssd.anchor_generator =
        \<lparr>default_box_generator.num_anchors_per_location = [4, 6, 6, 6, 4, 4]\<rparr>,
      ssd.head = \<lparr>ssd_head.classification_head =
        \<lparr>module_list = [Conv2d 512 364 3 1 1, Conv2d 1024 546 3 1 1, Conv2d 512 546 3 1 1,
           Conv2d 256 546 3 1 1, Conv2d 256 364 3 1 1, Conv2d 256 364 3 1 1]\<rparr>\<rparr>\<rparr>"

definition example_torchvision :: torchvision where
  "example_torchvision =
     \<lparr>fasterrcnn_resnet50_fpn = (\<lambda>w t. example_fasterrcnn),
      fasterrcnn_resnet50_fpn_v2 = (\<lambda>w t. example_fasterrcnn),
      fasterrcnn_mobilenet_v3_large_fpn = (\<lambda>w t. example_fasterrcnn),
      retinanet_resnet50_fpn_v2 = (\<lambda>w. example_retinanet),
      ssd300_vgg16 = (\<lambda>w. example_ssd)\<rparr>"

text \<open>A second library that differs from the first only where no pretrained weights are
  requested.\<close>

definition example_torchvision' :: torchvision where
  "example_torchvision' =
     \<lparr>fasterrcnn_resnet50_fpn =
        (\<lambda>w t. if w = None then example_fasterrcnn\<lparr>rpn := (rpn example_fasterrcnn)
           \<lparr>rpn.head := RPNHead 256 15\<rparr>\<rparr> else example_fasterrcnn),
      fasterrcnn_resnet50_fpn_v2 =
        (\<lambda>w t. if w = None then example_fasterrcnn\<lparr>rpn := (rpn example_fasterrcnn)
           \<lparr>rpn.head := RPNHead 256 15\<rparr>\<rparr> else example_fasterrcnn),
      fasterrcnn_mobilenet_v3_large_fpn =
        (\<lambda>w t. if w = None then example_fasterrcnn\<lparr>rpn := (rpn example_fasterrcnn)
           \<lparr>rpn.head := RPNHead 256 15\<rparr>\<rparr> else example_fasterrcnn),
      retinanet_resnet50_fpn_v2 =
        (\<lambda>w. if w = None then
           \<lparr>retinanet.head = \<lparr>retinanet_head.classification_head =
              \<lparr>num_anchors = 6, num_classes = 91, cls_logits = Conv2d 256 546 3 1 1\<rparr>\<rparr>\<rparr>
         else example_retinanet),
      ssd300_vgg16 =
        (\<lambda>w. if w = None then
           \<lparr>ssd.anchor_generator = \<lparr>default_box_generator.num_anchors_per_location = [4]\<rparr>,
            ssd.head = \<lparr>ssd_head.classification_head =
              \<lparr>module_list = [Conv2d 512 364 3 1 1]\<rparr>\<rparr>\<rparr>
         else example_ssd)\<rparr>"

section \<open>Properties\<close>

subsection \<open>Auxiliary facts\<close>

lemma if_append: "(if b then xs @ [x] else xs) = xs @ (if b then [x] else [])"
  by simp

lemma map_if_single: "map f (if b then [x] else []) = (if b then [f x] else [])"
  by simp

lemma length_if_single: "length (if b then [x] else []) = (if b then 1 else 0)"
  by simp

lemma replicate5: "map (\<lambda>_. x) [0..<5] = replicate 5 x"
  by (simp add: map_replicate_const)

lemma num_anchors_replicate:
  "length ss = n \<Longrightarrow>
   num_anchors_per_location (AnchorGenerator (map (\<lambda>s. [s]) ss) (replicate n r)) =
     replicate n (int (length r))"
  by (simp add: num_anchors_per_location_def AnchorGenerator_def zip_replicate2
      map_replicate_const o_def)

text \<open>set_anchor with its local lists named: the size check, then the index into the
  anchor counts.\<close>

lemma set_anchor_unfold:
  "set_anchor mdl args =
    (if length (selected_sizes args) \<noteq> 5
     then ([Text ''Number of sizes must be equal to 5''], Inl (Exit 1))
     else (case num_anchors_per_location (AnchorGenerator (map (\<lambda>s. [s]) (selected_sizes args))
               (replicate 5 (selected_aspect_ratios args))) of
             [] \<Rightarrow> ([], Inl IndexError)
           | n # _ \<Rightarrow> ([], Inr (mdl\<lparr>rpn := (rpn mdl)\<lparr>rpn.anchor_generator :=
             AnchorGenerator (map (\<lambda>s. [s]) (selected_sizes args))
               (replicate 5 (selected_aspect_ratios args)),
             rpn.head := RPNHead 256 n\<rparr>\<rparr>))))"
  unfolding set_anchor_def selected_sizes_def selected_aspect_ratios_def
  by (simp add: Let_def if_append map_if_single length_if_single replicate5 ac_simps
      split del: if_split cong: if_cong list.case_cong)

text \<open>The index is never out of range: with five sizes there are five anchor counts.\<close>

lemma set_anchor_eq:
  "set_anchor mdl args =
    (if length (selected_sizes args) \<noteq> 5
     then ([Text ''Number of sizes must be equal to 5''], Inl (Exit 1))
     else ([], Inr (mdl\<lparr>rpn := (rpn mdl)\<lparr>rpn.anchor_generator :=
             AnchorGenerator (map (\<lambda>s. [s]) (selected_sizes args))
               (replicate 5 (selected_aspect_ratios args)),
           rpn.head := RPNHead 256 (int (length (selected_aspect_ratios args)))\<rparr>\<rparr>)))"
proof (cases "length (selected_sizes args) = 5")
  case True
  have "num_anchors_per_location (AnchorGenerator (map (\<lambda>s. [s]) (selected_sizes args))
          (replicate 5 (selected_aspect_ratios args))) =
        replicate 5 (int (length (selected_aspect_ratios args)))"
    using True by (rule num_anchors_replicate)
  moreover have "replicate 5 k = k # replicate 4 k" for k :: int
    by (simp add: eval_nat_numeral)
  ultimately show ?thesis
    using True by (simp add: set_anchor_unfold)
next
  case False
  then show ?thesis
    by (simp add: set_anchor_unfold)
qed

lemma selected_sizes_count:
  "length (selected_sizes args) =
     length (filter (\<lambda>b. b) [size8 args, size16 args, size32 args, size64 args, size128 args,
       size256 args, size512 args])"
  by (simp add: selected_sizes_def)

lemma selected_aspect_ratios_count:
  "length (selected_aspect_ratios args) = length (filter (\<lambda>b. b) [ar05 args, ar1 args, ar2 args])"
  by (simp add: selected_aspect_ratios_def)

subsection \<open>set_anchor\<close>

text \<open>
  C5. set_anchor prints "Number of sizes must be equal to 5" and exits with status 1 if
  and only if the number of size flags that are set is not 5. With exactly five set it
  returns, and the model then carries a new AnchorGenerator built from the five selected
  sizes (one tuple per size) and five copies of the selected aspect ratios.
\<close>

theorem set_anchor_size_check:
  "(set_anchor mdl args = ([Text ''Number of sizes must be equal to 5''], Inl (Exit 1))) =
     (length (filter (\<lambda>b. b) [size8 args, size16 args, size32 args, size64 args, size128 args,
        size256 args, size512 args]) \<noteq> 5)
   \<and> (length (filter (\<lambda>b. b) [size8 args, size16 args, size32 args, size64 args, size128 args,
        size256 args, size512 args]) = 5 \<longrightarrow>
      (\<exists>mdl'. set_anchor mdl args = ([], Inr mdl') \<and>
         rpn.anchor_generator (rpn mdl') =
           AnchorGenerator (map (\<lambda>s. [s]) (selected_sizes args))
             (replicate 5 (selected_aspect_ratios args))))"
  unfolding selected_sizes_count [symmetric]
  by (simp add: set_anchor_eq)

text \<open>With the sizes 32 to 512 selected the generator is installed; with 32 deselected
  the call exits.\<close>

theorem set_anchor_size_check_witness:
  "length (filter (\<lambda>b. b) [size8 example_args, size16 example_args, size32 example_args,
      size64 example_args, size128 example_args, size256 example_args, size512 example_args]) = 5
   \<and> (\<exists>mdl'. set_anchor example_fasterrcnn example_args = ([], Inr mdl') \<and>
         rpn.anchor_generator (rpn mdl') =
           AnchorGenerator [[32], [64], [128], [256], [512]]
             [[1 / 2, 1], [1 / 2, 1], [1 / 2, 1], [1 / 2, 1], [1 / 2, 1]])
   \<and> set_anchor example_fasterrcnn (example_args\<lparr>size32 := False\<rparr>) =
         ([Text ''Number of sizes must be equal to 5''], Inl (Exit 1))"
  using set_anchor_size_check [of example_fasterrcnn example_args]
    set_anchor_size_check [of example_fasterrcnn "example_args\<lparr>size32 := False\<rparr>"]
  by (simp add: example_args_def selected_sizes_def selected_aspect_ratios_def eval_nat_numeral)

text \<open>
  C8. set_anchor checks the number of sizes only. With exactly five size flags set and
  none of ar05, ar1, ar2, it returns, and every one of the five aspect-ratio entries of
  the installed generator is the empty tuple.
\<close>

theorem set_anchor_ignores_missing_ratios:
  assumes "length (filter (\<lambda>b. b) [size8 args, size16 args, size32 args, size64 args,
      size128 args, size256 args, size512 args]) = 5"
    and "\<not> ar05 args" and "\<not> ar1 args" and "\<not> ar2 args"
  shows "\<exists>mdl'. set_anchor mdl args = ([], Inr mdl') \<and>
      anchor_generator.aspect_ratios (rpn.anchor_generator (rpn mdl')) = [[], [], [], [], []]"
  using assms unfolding selected_sizes_count [symmetric]
  by (simp add: set_anchor_eq selected_aspect_ratios_def AnchorGenerator_def eval_nat_numeral)

theorem set_anchor_ignores_missing_ratios_witness:
  "\<exists>mdl'. set_anchor example_fasterrcnn (example_args\<lparr>ar05 := False, ar1 := False\<rparr>) =
        ([], Inr mdl') \<and>
      anchor_generator.aspect_ratios (rpn.anchor_generator (rpn mdl')) = [[], [], [], [], []]"
  by (rule set_anchor_ignores_missing_ratios) (simp_all add: example_args_def)

text \<open>
  C10. After a call of set_anchor that returns, the installed anchor generator has exactly
  five size tuples, its aspect ratios are the selected aspect ratios repeated five times,
  and the new RPN head is \<open>RPNHead(256, n)\<close> where \<open>n\<close> is the first entry of the
  generator's \<open>num_anchors_per_location()\<close>, which is the number of aspect-ratio flags
  that are set.
\<close>

theorem set_anchor_rpn_consistent:
  assumes "set_anchor mdl args = (out, Inr mdl')"
  shows "length (anchor_generator.sizes (rpn.anchor_generator (rpn mdl'))) = 5
    \<and> anchor_generator.aspect_ratios (rpn.anchor_generator (rpn mdl')) =
        replicate 5 (selected_aspect_ratios args)
    \<and> (\<exists>n ns. num_anchors_per_location (rpn.anchor_generator (rpn mdl')) = n # ns
          \<and> rpn.head (rpn mdl') = RPNHead 256 n
          \<and> n = int (length (filter (\<lambda>b. b) [ar05 args, ar1 args, ar2 args])))"
proof -
  from assms have five: "length (selected_sizes args) = 5"
    by (simp add: set_anchor_eq split: if_splits)
  with assms have mdl': "mdl' = mdl\<lparr>rpn := (rpn mdl)\<lparr>rpn.anchor_generator :=
             AnchorGenerator (map (\<lambda>s. [s]) (selected_sizes args))
               (replicate 5 (selected_aspect_ratios args)),
           rpn.head := RPNHead 256 (int (length (selected_aspect_ratios args)))\<rparr>\<rparr>"
    by (simp add: set_anchor_eq)
  have "num_anchors_per_location (AnchorGenerator (map (\<lambda>s. [s]) (selected_sizes args))
          (replicate 5 (selected_aspect_ratios args))) =
        replicate 5 (int (length (selected_aspect_ratios args)))"
    using five by (rule num_anchors_replicate)
  then show ?thesis
    using five unfolding selected_aspect_ratios_count [symmetric]
    by (simp add: mdl' AnchorGenerator_def eval_nat_numeral)
qed

theorem set_anchor_rpn_consistent_witness:
  "set_anchor example_fasterrcnn example_args =
     ([], Inr (example_fasterrcnn\<lparr>rpn := (rpn example_fasterrcnn)\<lparr>rpn.anchor_generator :=
        \<lparr>sizes = [[32], [64], [128], [256], [512]],
         aspect_ratios = [[1 / 2, 1], [1 / 2, 1], [1 / 2, 1], [1 / 2, 1], [1 / 2, 1]]\<rparr>,
        rpn.head := RPNHead 256 2\<rparr>\<rparr>))
   \<and> num_anchors_per_location \<lparr>sizes = [[32], [64], [128], [256], [512]],
         aspect_ratios = [[1 / 2, 1], [1 / 2, 1], [1 / 2, 1], [1 / 2, 1], [1 / 2, 1]]\<rparr> =
       [2, 2, 2, 2, 2]"
proof -
  have r: "set_anchor example_fasterrcnn example_args =
     ([], Inr (example_fasterrcnn\<lparr>rpn := (rpn example_fasterrcnn)\<lparr>rpn.anchor_generator :=
        \<lparr>sizes = [[32], [64], [128], [256], [512]],
         aspect_ratios = [[1 / 2, 1], [1 / 2, 1], [1 / 2, 1], [1 / 2, 1], [1 / 2, 1]]\<rparr>,
        rpn.head := RPNHead 256 2\<rparr>\<rparr>))"
    by (simp add: set_anchor_eq example_args_def selected_sizes_def selected_aspect_ratios_def
        AnchorGenerator_def eval_nat_numeral)
  from set_anchor_rpn_consistent [OF r] show ?thesis
    using r by (simp add: num_anchors_per_location_def example_args_def
        selected_aspect_ratios_def eval_nat_numeral)
qed

subsection \<open>create_fasterrcnn\<close>

text \<open>create_fasterrcnn in one piece: the RoI heads \<open>h\<close>, the RPN \<open>r\<close>, and the outcome.\<close>

lemma create_fasterrcnn_eq:
  "create_fasterrcnn n_classes n_authors mdl args =
    (let h = (if add_authors args then
                Author_heads
                  \<lparr>built_by = CustomRoIHeads
                     (box_roi_pool (roi_heads mdl)) (box_head (roi_heads mdl))
                     (roi_heads.box_predictor (roi_heads mdl))
                     (box_fg_iou_threshold args) (box_bg_iou_threshold args)
                     (batch_size_per_image (fg_bg_sampler (roi_heads mdl)))
                     (positive_fraction (fg_bg_sampler (roi_heads mdl)))
                     (weights (box_coder (roi_heads mdl)))
                     (box_score_threshold args) (box_nms_threshold args)
                     (box_detections_per_img args),
                   author_heads.box_predictor = Some (FastRCNNPredictorWithAuthor
                     (linear.in_features (cls_score (roi_heads.box_predictor (roi_heads mdl))))
                     n_classes n_authors)\<rparr>
              else
                Library_heads
                  \<lparr>box_roi_pool = box_roi_pool (roi_heads mdl),
                   box_head = box_head (roi_heads mdl),
                   roi_heads.box_predictor = FastRCNNPredictor
                     (linear.in_features (cls_score (roi_heads.box_predictor (roi_heads mdl))))
                     n_classes,
                   fg_bg_sampler = fg_bg_sampler (roi_heads mdl),
                   box_coder = box_coder (roi_heads mdl),
                   roi_heads.nms_thresh = box_nms_threshold args,
                   roi_heads.score_thresh = box_score_threshold args,
                   roi_heads.proposal_matcher = (roi_heads.proposal_matcher (roi_heads mdl))
                     \<lparr>low_threshold := box_bg_iou_threshold args,
                      high_threshold := box_fg_iou_threshold args\<rparr>,
                   detections_per_img = box_detections_per_img args\<rparr>);
         r = (rpn mdl)\<lparr>rpn.nms_thresh := rpn_nms_threshold args,
               rpn.proposal_matcher := (rpn.proposal_matcher (rpn mdl))
                 \<lparr>low_threshold := rpn_fg_iou_threshold args,
                  high_threshold := rpn_bg_iou_threshold args\<rparr>,
               rpn.score_thresh := rpn_score_threshold args\<rparr>;
         r = (if custom_anchors args then
                r\<lparr>rpn.anchor_generator :=
                    AnchorGenerator (map (\<lambda>s. [s]) (selected_sizes args))
                      (replicate 5 (selected_aspect_ratios args)),
                  rpn.head := RPNHead 256 (int (length (selected_aspect_ratios args)))\<rparr>
              else r)
     in if custom_anchors args \<and> length (selected_sizes args) \<noteq> 5
        then ([Text ''Number of sizes must be equal to 5''], Inl (Exit 1))
        else ([Anchors_sizes (anchor_generator.sizes (rpn.anchor_generator r)),
               Anchors_aspect_ratios (anchor_generator.aspect_ratios (rpn.anchor_generator r))],
              Inr \<lparr>roi_heads = h, rpn = r\<rparr>))"
  by (simp add: create_fasterrcnn_def set_anchor_eq Let_def set_roi_heads_def
      set_box_predictor_def)

text \<open>
  C4. With args.add_authors set, create_fasterrcnn replaces the RoI heads by the object
  that \<open>CustomRoIHeads\<close> builds from the pooler, the head and the predictor of the loaded
  model and the box thresholds of the configuration, and then assigns to it the predictor
  \<open>FastRCNNPredictorWithAuthor(in_features, n_classes, n_authors)\<close>, where
  \<open>in_features\<close> is read from \<open>cls_score\<close> of the loaded predictor. The function returns
  unless set_anchor exits on its size check.
\<close>

theorem create_fasterrcnn_add_authors:
  assumes "add_authors args"
  shows "if custom_anchors args \<and> length (selected_sizes args) \<noteq> 5
     then snd (create_fasterrcnn n_classes n_authors mdl args) = Inl (Exit 1)
     else \<exists>mdl'. snd (create_fasterrcnn n_classes n_authors mdl args) = Inr mdl' \<and>
       roi_heads mdl' =
         Author_heads
           \<lparr>built_by = CustomRoIHeads
              (box_roi_pool (roi_heads mdl)) (box_head (roi_heads mdl))
              (roi_heads.box_predictor (roi_heads mdl))
              (box_fg_iou_threshold args) (box_bg_iou_threshold args)
              (batch_size_per_image (fg_bg_sampler (roi_heads mdl)))
              (positive_fraction (fg_bg_sampler (roi_heads mdl)))
              (weights (box_coder (roi_heads mdl)))
              (box_score_threshold args) (box_nms_threshold args)
              (box_detections_per_img args),
            author_heads.box_predictor = Some (FastRCNNPredictorWithAuthor
              (linear.in_features (cls_score (roi_heads.box_predictor (roi_heads mdl))))
              n_classes n_authors)\<rparr>"
  using assms by (simp add: create_fasterrcnn_eq Let_def)

theorem create_fasterrcnn_add_authors_witness:
  "\<exists>mdl'. snd (create_fasterrcnn 4 10 example_fasterrcnn (example_args\<lparr>add_authors := True\<rparr>)) =
       Inr mdl' \<and>
     roi_heads mdl' =
       Author_heads
         \<lparr>built_by = CustomRoIHeads (Module ''MultiScaleRoIAlign'') (Module ''TwoMLPHead'')
            \<lparr>cls_score = \<lparr>in_features = 1024\<rparr>\<rparr> (3 / 5) (2 / 5) 512 (1 / 4) [10, 10, 5, 5]
            (1 / 10) (9 / 20) 50,
          author_heads.box_predictor = Some (FastRCNNPredictorWithAuthor 1024 4 10)\<rparr>"
  using create_fasterrcnn_add_authors [of "example_args\<lparr>add_authors := True\<rparr>" 4 10
      example_fasterrcnn]
  by (simp add: example_args_def example_fasterrcnn_def)

text \<open>
  C6. The model that create_fasterrcnn returns holds the box thresholds of the
  configuration in its RoI heads: as the attributes nms_thresh, score_thresh,
  detections_per_img and the two bounds of the proposal matcher (foreground above,
  background below) when args.add_authors is not set, and as arguments of the
  \<open>CustomRoIHeads\<close> call when it is. The function returns unless set_anchor exits on its
  size check.
\<close>

theorem create_fasterrcnn_box_thresholds:
  "if custom_anchors args \<and> length (selected_sizes args) \<noteq> 5
   then snd (create_fasterrcnn n_classes n_authors mdl args) = Inl (Exit 1)
   else \<exists>mdl'. snd (create_fasterrcnn n_classes n_authors mdl args) = Inr mdl' \<and>
     (if add_authors args
      then \<exists>p. roi_heads mdl' = Author_heads \<lparr>built_by = CustomRoIHeads
              (box_roi_pool (roi_heads mdl)) (box_head (roi_heads mdl))
              (roi_heads.box_predictor (roi_heads mdl))
              (box_fg_iou_threshold args) (box_bg_iou_threshold args)
              (batch_size_per_image (fg_bg_sampler (roi_heads mdl)))
              (positive_fraction (fg_bg_sampler (roi_heads mdl)))
              (weights (box_coder (roi_heads mdl)))
              (box_score_threshold args) (box_nms_threshold args)
              (box_detections_per_img args),
            author_heads.box_predictor = p\<rparr>
      else \<exists>rh. roi_heads mdl' = Library_heads rh \<and>
        roi_heads.nms_thresh rh = box_nms_threshold args \<and>
        roi_heads.score_thresh rh = box_score_threshold args \<and>
        detections_per_img rh = box_detections_per_img args \<and>
        high_threshold (roi_heads.proposal_matcher rh) = box_fg_iou_threshold args \<and>
        low_threshold (roi_heads.proposal_matcher rh) = box_bg_iou_threshold args)"
  by (simp add: create_fasterrcnn_eq Let_def)

theorem create_fasterrcnn_box_thresholds_witness:
  "(\<exists>mdl' rh. snd (create_fasterrcnn 4 10 example_fasterrcnn example_args) = Inr mdl' \<and>
      roi_heads mdl' = Library_heads rh \<and>
      roi_heads.nms_thresh rh = 9 / 20 \<and> roi_heads.score_thresh rh = 1 / 10 \<and>
      detections_per_img rh = 50 \<and>
      high_threshold (roi_heads.proposal_matcher rh) = 3 / 5 \<and>
      low_threshold (roi_heads.proposal_matcher rh) = 2 / 5)
   \<and> (\<exists>mdl' p. snd (create_fasterrcnn 4 10 example_fasterrcnn
          (example_args\<lparr>add_authors := True\<rparr>)) = Inr mdl' \<and>
      roi_heads mdl' = Author_heads
         \<lparr>built_by = CustomRoIHeads (Module ''MultiScaleRoIAlign'') (Module ''TwoMLPHead'')
            \<lparr>cls_score = \<lparr>in_features = 1024\<rparr>\<rparr> (3 / 5) (2 / 5) 512 (1 / 4) [10, 10, 5, 5]
            (1 / 10) (9 / 20) 50,
          author_heads.box_predictor = p\<rparr>)"
  using create_fasterrcnn_box_thresholds [of example_args 4 10 example_fasterrcnn]
    create_fasterrcnn_box_thresholds [of "example_args\<lparr>add_authors := True\<rparr>" 4 10
      example_fasterrcnn]
  by (simp add: example_args_def example_fasterrcnn_def)

text \<open>
  C2. The RPN matcher receives the two RPN IoU thresholds the other way round: with a
  foreground threshold of 0.7 and a background threshold of 0.3, the returned model has
  \<open>high_threshold = 0.3\<close> and \<open>low_threshold = 0.7\<close> in the RPN matcher, while the matcher
  of the box head has the foreground threshold above and the background threshold below.
\<close>

theorem create_fasterrcnn_rpn_matcher_swapped:
  "rpn_fg_iou_threshold example_args = 7 / 10 \<and> rpn_bg_iou_threshold example_args = 3 / 10 \<and>
   (\<exists>out mdl' rh. create_fasterrcnn 4 10 example_fasterrcnn example_args = (out, Inr mdl') \<and>
      high_threshold (rpn.proposal_matcher (rpn mdl')) = 3 / 10 \<and>
      low_threshold (rpn.proposal_matcher (rpn mdl')) = 7 / 10 \<and>
      roi_heads mdl' = Library_heads rh \<and>
      high_threshold (roi_heads.proposal_matcher rh) = box_fg_iou_threshold example_args \<and>
      low_threshold (roi_heads.proposal_matcher rh) = box_bg_iou_threshold example_args)"
  by (simp add: create_fasterrcnn_eq Let_def example_args_def example_fasterrcnn_def)

subsection \<open>create_model\<close>

text \<open>The loop of create_ssd300 collects the input channels of the layers in order.\<close>

lemma ssd_in_channels:
  "foldl (\<lambda>in_channels layer. in_channels @ [conv2d.in_channels layer]) acc layers =
     acc @ map conv2d.in_channels layers"
  by (induction layers arbitrary: acc) simp_all

text \<open>
  C1. For each supported architecture create_model replaces the final prediction head by
  one built with \<open>n_classes\<close>. For fasterrcnn (with a supported backbone) the box predictor
  of the returned model is \<open>FastRCNNPredictor(i, n_classes)\<close>, or
  \<open>FastRCNNPredictorWithAuthor(i, n_classes, n_authors)\<close> with args.add_authors; the call
  returns unless set_anchor exits on its size check. For retinanet the classification
  head has \<open>num_classes = n_classes\<close> and its cls_logits is
  \<open>Conv2d(256, num_anchors * n_classes, 3, 1, 1)\<close>. For ssd the classification head is
  \<open>SSDClassificationHead(in_channels, num_anchors, n_classes)\<close>.
\<close>

theorem create_model_replaces_head:
  "(model args = ''fasterrcnn'' \<and>
      (backbone args = ''resnet50'' \<or> backbone args = ''resnet50v2'' \<or>
       backbone args = ''mobilenet'') \<longrightarrow>
     (if custom_anchors args \<and> length (selected_sizes args) \<noteq> 5
      then snd (create_model tv n_classes n_authors args) = Inl (Exit 1)
      else \<exists>mdl i. snd (create_model tv n_classes n_authors args) = Inr (FasterRCNN mdl) \<and>
        (if add_authors args
         then \<exists>c. roi_heads mdl = Author_heads \<lparr>built_by = c, author_heads.box_predictor =
                Some (FastRCNNPredictorWithAuthor i n_classes n_authors)\<rparr>
         else \<exists>rh. roi_heads mdl = Library_heads rh \<and>
                roi_heads.box_predictor rh = FastRCNNPredictor i n_classes)))
   \<and> (model args = ''retinanet'' \<longrightarrow>
     (\<exists>mdl. snd (create_model tv n_classes n_authors args) = Inr (RetinaNet mdl) \<and>
        num_classes (retinanet_head.classification_head (retinanet.head mdl)) = n_classes \<and>
        cls_logits (retinanet_head.classification_head (retinanet.head mdl)) =
          Conv2d 256
            (retinanet_classification_head.num_anchors (retinanet_head.classification_head
               (retinanet.head (retinanet_resnet50_fpn_v2 tv
                  (if pretrained args then Some DEFAULT else None)))) * n_classes) 3 1 1))
   \<and> (model args = ''ssd'' \<longrightarrow>
     (\<exists>mdl. snd (create_model tv n_classes n_authors args) = Inr (SSD mdl) \<and>
        ssd_head.classification_head (ssd.head mdl) =
          SSDClassificationHead
            (map conv2d.in_channels (module_list (ssd_head.classification_head (ssd.head
               (ssd300_vgg16 tv (if pretrained args then Some DEFAULT else None))))))
            (default_box_generator.num_anchors_per_location (ssd.anchor_generator
               (ssd300_vgg16 tv (if pretrained args then Some DEFAULT else None))))
            n_classes))"
proof (intro conjI impI)
  assume "model args = ''fasterrcnn'' \<and>
      (backbone args = ''resnet50'' \<or> backbone args = ''resnet50v2'' \<or>
       backbone args = ''mobilenet'')"
  then show "if custom_anchors args \<and> length (selected_sizes args) \<noteq> 5
      then snd (create_model tv n_classes n_authors args) = Inl (Exit 1)
      else \<exists>mdl i. snd (create_model tv n_classes n_authors args) = Inr (FasterRCNN mdl) \<and>
        (if add_authors args
         then \<exists>c. roi_heads mdl = Author_heads \<lparr>built_by = c, author_heads.box_predictor =
                Some (FastRCNNPredictorWithAuthor i n_classes n_authors)\<rparr>
         else \<exists>rh. roi_heads mdl = Library_heads rh \<and>
                roi_heads.box_predictor rh = FastRCNNPredictor i n_classes)"
    by (auto simp add: create_model_def create_fasterrcnn_eq Let_def)
next
  assume "model args = ''retinanet''"
  then show "\<exists>mdl. snd (create_model tv n_classes n_authors args) = Inr (RetinaNet mdl) \<and>
        num_classes (retinanet_head.classification_head (retinanet.head mdl)) = n_classes \<and>
        cls_logits (retinanet_head.classification_head (retinanet.head mdl)) =
          Conv2d 256
            (retinanet_classification_head.num_anchors (retinanet_head.classification_head
               (retinanet.head (retinanet_resnet50_fpn_v2 tv
                  (if pretrained args then Some DEFAULT else None)))) * n_classes) 3 1 1"
    by (simp add: create_model_def create_retinanet_def Let_def)
next
  assume "model args = ''ssd''"
  then show "\<exists>mdl. snd (create_model tv n_classes n_authors args) = Inr (SSD mdl) \<and>
        ssd_head.classification_head (ssd.head mdl) =
          SSDClassificationHead
            (map conv2d.in_channels (module_list (ssd_head.classification_head (ssd.head
               (ssd300_vgg16 tv (if pretrained args then Some DEFAULT else None))))))
            (default_box_generator.num_anchors_per_location (ssd.anchor_generator
               (ssd300_vgg16 tv (if pretrained args then Some DEFAULT else None))))
            n_classes"
    by (simp add: create_model_def create_ssd300_def Let_def ssd_in_channels)
qed

theorem create_model_replaces_head_witness:
  "(\<exists>mdl rh. snd (create_model example_torchvision 4 10 example_args) = Inr (FasterRCNN mdl) \<and>
      roi_heads mdl = Library_heads rh \<and>
      roi_heads.box_predictor rh = FastRCNNPredictor 1024 4)
   \<and> snd (create_model example_torchvision 4 10 (example_args\<lparr>model := ''retinanet''\<rparr>)) =
       Inr (RetinaNet \<lparr>retinanet.head = \<lparr>retinanet_head.classification_head =
         \<lparr>num_anchors = 9, num_classes = 4, cls_logits = Conv2d 256 36 3 1 1\<rparr>\<rparr>\<rparr>)
   \<and> snd (create_model example_torchvision 4 10 (example_args\<lparr>model := ''ssd''\<rparr>)) =
       Inr (SSD \<lparr>ssd.anchor_generator =
           \<lparr>default_box_generator.num_anchors_per_location = [4, 6, 6, 6, 4, 4]\<rparr>,
         ssd.head = \<lparr>ssd_head.classification_head =
           SSDClassificationHead [512, 1024, 512, 256, 256, 256] [4, 6, 6, 6, 4, 4] 4\<rparr>\<rparr>)"
  using create_model_replaces_head [of example_args example_torchvision 4 10]
    create_model_replaces_head [of "example_args\<lparr>model := ''retinanet''\<rparr>" example_torchvision 4 10]
    create_model_replaces_head [of "example_args\<lparr>model := ''ssd''\<rparr>" example_torchvision 4 10]
  by (simp add: example_args_def example_torchvision_def example_fasterrcnn_def
      example_retinanet_def example_ssd_def create_model_def create_fasterrcnn_eq
      create_retinanet_def create_ssd300_def Let_def)

text \<open>
  C7. Every builder of the library is called with \<open>weights = 'DEFAULT'\<close> exactly when
  args.pretrained is true, and with \<open>weights = None\<close> otherwise. With \<open>w\<close> that value:
  for fasterrcnn and each backbone, create_model is create_fasterrcnn applied to the
  model that the backbone's builder returns at \<open>w\<close> (and at args.trainable_backbone_layers),
  and unless set_anchor exits, the returned model carries that loaded model's pooler, box
  head, sampler, box coder and predictor input size, and its anchor generator and RPN
  head when no custom anchors are requested; for retinanet the result is the model that
  retinanet_resnet50_fpn_v2 returns at \<open>w\<close> with num_classes and cls_logits replaced; for
  ssd it is the model that ssd300_vgg16 returns at \<open>w\<close> with the classification head
  replaced. No builder is called at the other value: two libraries that agree at \<open>w\<close>
  give the same outcome.
\<close>

theorem create_model_weights:
  assumes w: "w = (if pretrained args then Some DEFAULT else None)"
  shows
    "(\<forall>b. model args = ''fasterrcnn'' \<longrightarrow>
        (backbone args = ''resnet50'' \<and> b = fasterrcnn_resnet50_fpn tv \<or>
         backbone args = ''resnet50v2'' \<and> b = fasterrcnn_resnet50_fpn_v2 tv \<or>
         backbone args = ''mobilenet'' \<and> b = fasterrcnn_mobilenet_v3_large_fpn tv) \<longrightarrow>
        (let loaded = b w (trainable_backbone_layers args) in
         create_model tv n_classes n_authors args =
           (case create_fasterrcnn n_classes n_authors loaded args of
              (out, Inl e) \<Rightarrow> (out, Inl e)
            | (out, Inr mdl) \<Rightarrow> (out, Inr (FasterRCNN mdl))) \<and>
         (if custom_anchors args \<and> length (selected_sizes args) \<noteq> 5
          then snd (create_model tv n_classes n_authors args) = Inl (Exit 1)
          else \<exists>out mdl.
            create_model tv n_classes n_authors args = (out, Inr (FasterRCNN mdl)) \<and>
            (case roi_heads mdl of
               Library_heads rh \<Rightarrow>
                 box_roi_pool rh = box_roi_pool (roi_heads loaded) \<and>
                 box_head rh = box_head (roi_heads loaded) \<and>
                 fg_bg_sampler rh = fg_bg_sampler (roi_heads loaded) \<and>
                 box_coder rh = box_coder (roi_heads loaded) \<and>
                 roi_heads.box_predictor rh = FastRCNNPredictor
                   (linear.in_features (cls_score (roi_heads.box_predictor (roi_heads loaded))))
                   n_classes
             | Author_heads ah \<Rightarrow>
                 (\<exists>fg bg sc nms det. built_by ah = CustomRoIHeads
                    (box_roi_pool (roi_heads loaded)) (box_head (roi_heads loaded))
                    (roi_heads.box_predictor (roi_heads loaded)) fg bg
                    (batch_size_per_image (fg_bg_sampler (roi_heads loaded)))
                    (positive_fraction (fg_bg_sampler (roi_heads loaded)))
                    (weights (box_coder (roi_heads loaded))) sc nms det) \<and>
                 author_heads.box_predictor ah = Some (FastRCNNPredictorWithAuthor
                   (linear.in_features (cls_score (roi_heads.box_predictor (roi_heads loaded))))
                   n_classes n_authors)) \<and>
            (if custom_anchors args then True
             else rpn.anchor_generator (rpn mdl) = rpn.anchor_generator (rpn loaded) \<and>
                  rpn.head (rpn mdl) = rpn.head (rpn loaded)))))
     \<and> (model args = ''retinanet'' \<longrightarrow>
        (let loaded = retinanet_resnet50_fpn_v2 tv w in
         create_model tv n_classes n_authors args =
           ([], Inr (RetinaNet (loaded\<lparr>retinanet.head := (retinanet.head loaded)
              \<lparr>retinanet_head.classification_head :=
                 (retinanet_head.classification_head (retinanet.head loaded))
                   \<lparr>num_classes := n_classes,
                    cls_logits := Conv2d 256
                      (retinanet_classification_head.num_anchors
                         (retinanet_head.classification_head (retinanet.head loaded))
                       * n_classes) 3 1 1\<rparr>\<rparr>\<rparr>)))))
     \<and> (model args = ''ssd'' \<longrightarrow>
        (let loaded = ssd300_vgg16 tv w in
         create_model tv n_classes n_authors args =
           ([], Inr (SSD \<lparr>ssd.anchor_generator = ssd.anchor_generator loaded,
              ssd.head = \<lparr>ssd_head.classification_head = SSDClassificationHead
                (map conv2d.in_channels
                   (module_list (ssd_head.classification_head (ssd.head loaded))))
                (default_box_generator.num_anchors_per_location (ssd.anchor_generator loaded))
                n_classes\<rparr>\<rparr>))))
     \<and> (\<forall>tv'.
          (\<forall>t. fasterrcnn_resnet50_fpn tv w t = fasterrcnn_resnet50_fpn tv' w t) \<longrightarrow>
          (\<forall>t. fasterrcnn_resnet50_fpn_v2 tv w t = fasterrcnn_resnet50_fpn_v2 tv' w t) \<longrightarrow>
          (\<forall>t. fasterrcnn_mobilenet_v3_large_fpn tv w t =
                fasterrcnn_mobilenet_v3_large_fpn tv' w t) \<longrightarrow>
          retinanet_resnet50_fpn_v2 tv w = retinanet_resnet50_fpn_v2 tv' w \<longrightarrow>
          ssd300_vgg16 tv w = ssd300_vgg16 tv' w \<longrightarrow>
          create_model tv n_classes n_authors args = create_model tv' n_classes n_authors args)"
proof (intro conjI allI impI)
  fix b
  assume m: "model args = ''fasterrcnn''"
    and b: "backbone args = ''resnet50'' \<and> b = fasterrcnn_resnet50_fpn tv \<or>
         backbone args = ''resnet50v2'' \<and> b = fasterrcnn_resnet50_fpn_v2 tv \<or>
         backbone args = ''mobilenet'' \<and> b = fasterrcnn_mobilenet_v3_large_fpn tv"
  have eq: "create_model tv n_classes n_authors args =
           (case create_fasterrcnn n_classes n_authors (b w (trainable_backbone_layers args)) args of
              (out, Inl e) \<Rightarrow> (out, Inl e)
            | (out, Inr mdl) \<Rightarrow> (out, Inr (FasterRCNN mdl)))"
    using m b unfolding w by (auto simp add: create_model_def)
  show "let loaded = b w (trainable_backbone_layers args) in
         create_model tv n_classes n_authors args =
           (case create_fasterrcnn n_classes n_authors loaded args of
              (out, Inl e) \<Rightarrow> (out, Inl e)
            | (out, Inr mdl) \<Rightarrow> (out, Inr (FasterRCNN mdl))) \<and>
         (if custom_anchors args \<and> length (selected_sizes args) \<noteq> 5
          then snd (create_model tv n_classes n_authors args) = Inl (Exit 1)
          else \<exists>out mdl.
            create_model tv n_classes n_authors args = (out, Inr (FasterRCNN mdl)) \<and>
            (case roi_heads mdl of
               Library_heads rh \<Rightarrow>
                 box_roi_pool rh = box_roi_pool (roi_heads loaded) \<and>
                 box_head rh = box_head (roi_heads loaded) \<and>
                 fg_bg_sampler rh = fg_bg_sampler (roi_heads loaded) \<and>
                 box_coder rh = box_coder (roi_heads loaded) \<and>
                 roi_heads.box_predictor rh = FastRCNNPredictor
                   (linear.in_features (cls_score (roi_heads.box_predictor (roi_heads loaded))))
                   n_classes
             | Author_heads ah \<Rightarrow>
                 (\<exists>fg bg sc nms det. built_by ah = CustomRoIHeads
                    (box_roi_pool (roi_heads loaded)) (box_head (roi_heads loaded))
                    (roi_heads.box_predictor (roi_heads loaded)) fg bg
                    (batch_size_per_image (fg_bg_sampler (roi_heads loaded)))
                    (positive_fraction (fg_bg_sampler (roi_heads loaded)))
                    (weights (box_coder (roi_heads loaded))) sc nms det) \<and>
                 author_heads.box_predictor ah = Some (FastRCNNPredictorWithAuthor
                   (linear.in_features (cls_score (roi_heads.box_predictor (roi_heads loaded))))
                   n_classes n_authors)) \<and>
            (if custom_anchors args then True
             else rpn.anchor_generator (rpn mdl) = rpn.anchor_generator (rpn loaded) \<and>
                  rpn.head (rpn mdl) = rpn.head (rpn loaded)))"
    unfolding Let_def eq
    by (auto simp add: create_fasterrcnn_eq Let_def split: if_splits)
next
  assume "model args = ''retinanet''"
  then show "let loaded = retinanet_resnet50_fpn_v2 tv w in
         create_model tv n_classes n_authors args =
           ([], Inr (RetinaNet (loaded\<lparr>retinanet.head := (retinanet.head loaded)
              \<lparr>retinanet_head.classification_head :=
                 (retinanet_head.classification_head (retinanet.head loaded))
                   \<lparr>num_classes := n_classes,
                    cls_logits := Conv2d 256
                      (retinanet_classification_head.num_anchors
                         (retinanet_head.classification_head (retinanet.head loaded))
                       * n_classes) 3 1 1\<rparr>\<rparr>\<rparr>)))"
    unfolding w by (simp add: create_model_def create_retinanet_def Let_def)
next
  assume "model args = ''ssd''"
  then show "let loaded = ssd300_vgg16 tv w in
         create_model tv n_classes n_authors args =
           ([], Inr (SSD \<lparr>ssd.anchor_generator = ssd.anchor_generator loaded,
              ssd.head = \<lparr>ssd_head.classification_head = SSDClassificationHead
                (map conv2d.in_channels
                   (module_list (ssd_head.classification_head (ssd.head loaded))))
                (default_box_generator.num_anchors_per_location (ssd.anchor_generator loaded))
                n_classes\<rparr>\<rparr>))"
    unfolding w by (simp add: create_model_def create_ssd300_def Let_def ssd_in_channels)
next
  fix tv' :: torchvision
  assume "\<forall>t. fasterrcnn_resnet50_fpn tv w t = fasterrcnn_resnet50_fpn tv' w t"
    and "\<forall>t. fasterrcnn_resnet50_fpn_v2 tv w t = fasterrcnn_resnet50_fpn_v2 tv' w t"
    and "\<forall>t. fasterrcnn_mobilenet_v3_large_fpn tv w t =
                fasterrcnn_mobilenet_v3_large_fpn tv' w t"
    and "retinanet_resnet50_fpn_v2 tv w = retinanet_resnet50_fpn_v2 tv' w"
    and "ssd300_vgg16 tv w = ssd300_vgg16 tv' w"
  then show "create_model tv n_classes n_authors args = create_model tv' n_classes n_authors args"
    unfolding w by (simp add: create_model_def create_retinanet_def create_ssd300_def)
qed

text \<open>On a library whose builders all answer differently without pretrained weights, the
  outcome follows args.pretrained for each architecture.\<close>

theorem create_model_weights_witness:
  "(\<exists>out mdl. create_model example_torchvision' 4 10 example_args = (out, Inr (FasterRCNN mdl)) \<and>
      rpn.head (rpn mdl) = RPNHead 256 3)
   \<and> (\<exists>out mdl. create_model example_torchvision' 4 10 (example_args\<lparr>pretrained := False\<rparr>) =
        (out, Inr (FasterRCNN mdl)) \<and>
      rpn.head (rpn mdl) = RPNHead 256 15)
   \<and> create_model example_torchvision' 4 10 (example_args\<lparr>model := ''retinanet''\<rparr>) =
       ([], Inr (RetinaNet \<lparr>retinanet.head = \<lparr>retinanet_head.classification_head =
         \<lparr>num_anchors = 9, num_classes = 4, cls_logits = Conv2d 256 36 3 1 1\<rparr>\<rparr>\<rparr>))
   \<and> create_model example_torchvision' 4 10
        (example_args\<lparr>model := ''retinanet'', pretrained := False\<rparr>) =
       ([], Inr (RetinaNet \<lparr>retinanet.head = \<lparr>retinanet_head.classification_head =
         \<lparr>num_anchors = 6, num_classes = 4, cls_logits = Conv2d 256 24 3 1 1\<rparr>\<rparr>\<rparr>))
   \<and> create_model example_torchvision' 4 10 (example_args\<lparr>model := ''ssd'', pretrained := False\<rparr>) =
       ([], Inr (SSD \<lparr>ssd.anchor_generator =
           \<lparr>default_box_generator.num_anchors_per_location = [4]\<rparr>,
         ssd.head = \<lparr>ssd_head.classification_head = SSDClassificationHead [512] [4] 4\<rparr>\<rparr>))
   \<and> create_model example_torchvision' 4 10 example_args =
       create_model example_torchvision 4 10 example_args"
proof -
  note fr = create_model_weights [where tv = example_torchvision' and n_classes = 4
      and n_authors = 10, THEN conjunct1, rule_format,
      where b = "fasterrcnn_resnet50_fpn example_torchvision'"]
  have na: "\<not> (custom_anchors args' \<and> length (selected_sizes args') \<noteq> 5)"
    if "args' = example_args \<or> args' = example_args\<lparr>pretrained := False\<rparr>" for args'
    using that by (auto simp add: example_args_def)
  have "\<exists>out mdl. create_model example_torchvision' 4 10 example_args =
        (out, Inr (FasterRCNN mdl)) \<and>
      rpn.head (rpn mdl) = rpn.head (rpn (fasterrcnn_resnet50_fpn example_torchvision'
        (Some DEFAULT) (trainable_backbone_layers example_args)))"
    using fr [where w = "Some DEFAULT" and args = example_args, unfolded Let_def,
        THEN conjunct2] na [of example_args]
    by (simp add: example_args_def) blast
  then have a: "\<exists>out mdl. create_model example_torchvision' 4 10 example_args =
        (out, Inr (FasterRCNN mdl)) \<and> rpn.head (rpn mdl) = RPNHead 256 3"
    by (simp add: example_torchvision'_def example_fasterrcnn_def)
  have "\<exists>out mdl. create_model example_torchvision' 4 10 (example_args\<lparr>pretrained := False\<rparr>) =
        (out, Inr (FasterRCNN mdl)) \<and>
      rpn.head (rpn mdl) = rpn.head (rpn (fasterrcnn_resnet50_fpn example_torchvision'
        None (trainable_backbone_layers (example_args\<lparr>pretrained := False\<rparr>))))"
    using fr [where w = None and args = "example_args\<lparr>pretrained := False\<rparr>",
        unfolded Let_def, THEN conjunct2] na [of "example_args\<lparr>pretrained := False\<rparr>"]
    by (simp add: example_args_def) blast
  then have b: "\<exists>out mdl. create_model example_torchvision' 4 10
        (example_args\<lparr>pretrained := False\<rparr>) = (out, Inr (FasterRCNN mdl)) \<and>
      rpn.head (rpn mdl) = RPNHead 256 15"
    by (simp add: example_torchvision'_def example_fasterrcnn_def)
  note rest = create_model_weights [where tv = example_torchvision' and n_classes = 4
      and n_authors = 10]
  have c: "create_model example_torchvision' 4 10 (example_args\<lparr>model := ''retinanet''\<rparr>) =
       ([], Inr (RetinaNet \<lparr>retinanet.head = \<lparr>retinanet_head.classification_head =
         \<lparr>num_anchors = 9, num_classes = 4, cls_logits = Conv2d 256 36 3 1 1\<rparr>\<rparr>\<rparr>))"
    using rest [where w = "Some DEFAULT" and args = "example_args\<lparr>model := ''retinanet''\<rparr>",
        THEN conjunct2, THEN conjunct1]
    by (simp add: example_args_def Let_def example_torchvision'_def example_retinanet_def)
  have d: "create_model example_torchvision' 4 10
        (example_args\<lparr>model := ''retinanet'', pretrained := False\<rparr>) =
       ([], Inr (RetinaNet \<lparr>retinanet.head = \<lparr>retinanet_head.classification_head =
         \<lparr>num_anchors = 6, num_classes = 4, cls_logits = Conv2d 256 24 3 1 1\<rparr>\<rparr>\<rparr>))"
    using rest [where w = None
        and args = "example_args\<lparr>model := ''retinanet'', pretrained := False\<rparr>",
        THEN conjunct2, THEN conjunct1]
    by (simp add: example_args_def Let_def example_torchvision'_def)
  have e: "create_model example_torchvision' 4 10
        (example_args\<lparr>model := ''ssd'', pretrained := False\<rparr>) =
       ([], Inr (SSD \<lparr>ssd.anchor_generator =
           \<lparr>default_box_generator.num_anchors_per_location = [4]\<rparr>,
         ssd.head = \<lparr>ssd_head.classification_head = SSDClassificationHead [512] [4] 4\<rparr>\<rparr>))"
    using rest [where w = None
        and args = "example_args\<lparr>model := ''ssd'', pretrained := False\<rparr>",
        THEN conjunct2, THEN conjunct2, THEN conjunct1]
    by (simp add: example_args_def Let_def example_torchvision'_def)
  have f: "create_model example_torchvision' 4 10 example_args =
       create_model example_torchvision 4 10 example_args"
    using rest [where w = "Some DEFAULT" and args = example_args,
        THEN conjunct2, THEN conjunct2, THEN conjunct2, rule_format,
        where tv' = example_torchvision]
    by (simp add: example_args_def example_torchvision'_def example_torchvision_def)
  from a b c d e f show ?thesis by blast
qed

text \<open>
  C9, as stated, fails: with the supported choice fasterrcnn and resnet50, custom anchors
  and four sizes, create_model does not return a model; the process exits with status 1.
\<close>

theorem create_model_exit_counterexample:
  "model (example_args\<lparr>custom_anchors := True, size32 := False\<rparr>) = ''fasterrcnn''
   \<and> backbone (example_args\<lparr>custom_anchors := True, size32 := False\<rparr>) = ''resnet50''
   \<and> create_model example_torchvision 4 10 (example_args\<lparr>custom_anchors := True, size32 := False\<rparr>) =
       ([Text ''Number of sizes must be equal to 5''], Inl (Exit 1))"
  by (simp add: create_model_def create_fasterrcnn_eq Let_def example_args_def
      example_torchvision_def selected_sizes_def)

text \<open>
  C9, amended. For a supported choice (retinanet, ssd, or fasterrcnn with one of the
  backbones resnet50, resnet50v2, mobilenet) create_model returns a model, except that
  for fasterrcnn with args.custom_anchors set and a number of selected sizes other than 5
  the process exits with status 1. For every other value of args.model, and for
  fasterrcnn with any other backbone, the local variable is never bound and the call
  fails with an unbound-variable error.
\<close>

theorem create_model_partial:
  "(model args = ''fasterrcnn'' \<and>
      (backbone args = ''resnet50'' \<or> backbone args = ''resnet50v2'' \<or>
       backbone args = ''mobilenet'') \<or>
    model args = ''retinanet'' \<or> model args = ''ssd'' \<longrightarrow>
     (if model args = ''fasterrcnn'' \<and> custom_anchors args \<and> length (selected_sizes args) \<noteq> 5
      then create_model tv n_classes n_authors args =
        ([Text ''Number of sizes must be equal to 5''], Inl (Exit 1))
      else \<exists>out d. create_model tv n_classes n_authors args = (out, Inr d)))
   \<and> (\<not> (model args = ''fasterrcnn'' \<and>
      (backbone args = ''resnet50'' \<or> backbone args = ''resnet50v2'' \<or>
       backbone args = ''mobilenet'') \<or>
    model args = ''retinanet'' \<or> model args = ''ssd'') \<longrightarrow>
     create_model tv n_classes n_authors args = ([], Inl UnboundLocalError))"
  by (auto simp add: create_model_def create_fasterrcnn_eq Let_def)

theorem create_model_partial_witness:
  "(\<exists>out d. create_model example_torchvision 4 10 example_args = (out, Inr d))
   \<and> (\<exists>out d. create_model example_torchvision 4 10 (example_args\<lparr>model := ''ssd''\<rparr>) =
        (out, Inr d))
   \<and> create_model example_torchvision 4 10 (example_args\<lparr>custom_anchors := True, size32 := False\<rparr>) =
        ([Text ''Number of sizes must be equal to 5''], Inl (Exit 1))
   \<and> create_model example_torchvision 4 10 (example_args\<lparr>backbone := ''vgg16''\<rparr>) =
        ([], Inl UnboundLocalError)
   \<and> create_model example_torchvision 4 10 (example_args\<lparr>model := ''yolo''\<rparr>) =
        ([], Inl UnboundLocalError)"
  using create_model_partial [of example_args example_torchvision 4 10]
    create_model_partial [of "example_args\<lparr>model := ''ssd''\<rparr>" example_torchvision 4 10]
    create_model_partial [of "example_args\<lparr>custom_anchors := True, size32 := False\<rparr>"
      example_torchvision 4 10]
    create_model_partial [of "example_args\<lparr>backbone := ''vgg16''\<rparr>" example_torchvision 4 10]
    create_model_partial [of "example_args\<lparr>model := ''yolo''\<rparr>" example_torchvision 4 10]
  by (simp add: example_args_def selected_sizes_def)

text \<open>
  C3, as stated, fails: for retinanet the returned model carries neither the thresholds
  nor the anchor flags of the configuration. It is the loaded model with its logits
  resized, and it stays the same when every threshold and anchor flag is changed.
\<close>

theorem create_model_flags_counterexample:
  "model (example_args\<lparr>model := ''retinanet'', custom_anchors := True\<rparr>) = ''retinanet''
   \<and> custom_anchors (example_args\<lparr>model := ''retinanet'', custom_anchors := True\<rparr>)
   \<and> box_nms_threshold (example_args\<lparr>model := ''retinanet'', custom_anchors := True\<rparr>) = 9 / 20
   \<and> create_model example_torchvision 4 10
        (example_args\<lparr>model := ''retinanet'', custom_anchors := True\<rparr>) =
       ([], Inr (RetinaNet \<lparr>retinanet.head = \<lparr>retinanet_head.classification_head =
         \<lparr>num_anchors = 9, num_classes = 4, cls_logits = Conv2d 256 36 3 1 1\<rparr>\<rparr>\<rparr>))
   \<and> create_model example_torchvision 4 10
        (example_args\<lparr>model := ''retinanet'', custom_anchors := True,
           size8 := True, ar2 := True, box_fg_iou_threshold := 1 / 7,
           box_bg_iou_threshold := 1 / 8, box_score_threshold := 1 / 9,
           box_nms_threshold := 1 / 11, box_detections_per_img := 7,
           rpn_nms_threshold := 1 / 12, rpn_score_threshold := 1 / 13\<rparr>) =
       create_model example_torchvision 4 10
        (example_args\<lparr>model := ''retinanet'', custom_anchors := True\<rparr>)"
  by (simp add: create_model_def create_retinanet_def Let_def example_args_def
      example_torchvision_def example_retinanet_def)

text \<open>
  C3, amended. For fasterrcnn the returned model holds rpn_nms_threshold and
  rpn_score_threshold in its RPN and the box thresholds in its RoI heads (as attributes,
  or as arguments of \<open>CustomRoIHeads\<close> with args.add_authors), and, when
  args.custom_anchors is set, an anchor generator built from the selected sizes and five
  copies of the selected aspect ratios. For retinanet and ssd the outcome depends on the
  configuration through args.model and args.pretrained only.
\<close>

theorem create_model_reflects_flags:
  "(model args = ''fasterrcnn'' \<longrightarrow> create_model tv n_classes n_authors args = (out, Inr d) \<longrightarrow>
     (\<exists>mdl. d = FasterRCNN mdl \<and>
        rpn.nms_thresh (rpn mdl) = rpn_nms_threshold args \<and>
        rpn.score_thresh (rpn mdl) = rpn_score_threshold args \<and>
        (if add_authors args
         then \<exists>a b c e f g p. roi_heads mdl = Author_heads \<lparr>built_by = CustomRoIHeads a b c
                 (box_fg_iou_threshold args) (box_bg_iou_threshold args) e f g
                 (box_score_threshold args) (box_nms_threshold args)
                 (box_detections_per_img args),
               author_heads.box_predictor = p\<rparr>
         else \<exists>rh. roi_heads mdl = Library_heads rh \<and>
           roi_heads.nms_thresh rh = box_nms_threshold args \<and>
           roi_heads.score_thresh rh = box_score_threshold args \<and>
           detections_per_img rh = box_detections_per_img args \<and>
           high_threshold (roi_heads.proposal_matcher rh) = box_fg_iou_threshold args \<and>
           low_threshold (roi_heads.proposal_matcher rh) = box_bg_iou_threshold args) \<and>
        (custom_anchors args \<longrightarrow>
           rpn.anchor_generator (rpn mdl) =
             AnchorGenerator (map (\<lambda>s. [s]) (selected_sizes args))
               (replicate 5 (selected_aspect_ratios args)))))
   \<and> (model args = ''retinanet'' \<or> model args = ''ssd'' \<longrightarrow>
       model args' = model args \<longrightarrow> pretrained args' = pretrained args \<longrightarrow>
       create_model tv n_classes n_authors args' = create_model tv n_classes n_authors args)"
proof (intro conjI impI)
  assume "model args = ''fasterrcnn''"
    and "create_model tv n_classes n_authors args = (out, Inr d)"
  then show "\<exists>mdl. d = FasterRCNN mdl \<and>
        rpn.nms_thresh (rpn mdl) = rpn_nms_threshold args \<and>
        rpn.score_thresh (rpn mdl) = rpn_score_threshold args \<and>
        (if add_authors args
         then \<exists>a b c e f g p. roi_heads mdl = Author_heads \<lparr>built_by = CustomRoIHeads a b c
                 (box_fg_iou_threshold args) (box_bg_iou_threshold args) e f g
                 (box_score_threshold args) (box_nms_threshold args)
                 (box_detections_per_img args),
               author_heads.box_predictor = p\<rparr>
         else \<exists>rh. roi_heads mdl = Library_heads rh \<and>
           roi_heads.nms_thresh rh = box_nms_threshold args \<and>
           roi_heads.score_thresh rh = box_score_threshold args \<and>
           detections_per_img rh = box_detections_per_img args \<and>
           high_threshold (roi_heads.proposal_matcher rh) = box_fg_iou_threshold args \<and>
           low_threshold (roi_heads.proposal_matcher rh) = box_bg_iou_threshold args) \<and>
        (custom_anchors args \<longrightarrow>
           rpn.anchor_generator (rpn mdl) =
             AnchorGenerator (map (\<lambda>s. [s]) (selected_sizes args))
               (replicate 5 (selected_aspect_ratios args)))"
    by (auto simp add: create_model_def create_fasterrcnn_eq Let_def
        split: if_splits option.splits)
next
  assume "model args = ''retinanet'' \<or> model args = ''ssd''"
    and "model args' = model args" and "pretrained args' = pretrained args"
  then show "create_model tv n_classes n_authors args' = create_model tv n_classes n_authors args"
    by (auto simp add: create_model_def create_retinanet_def create_ssd300_def)
qed

theorem create_model_reflects_flags_witness:
  "(\<exists>mdl rh. create_model example_torchvision 4 10 (example_args\<lparr>custom_anchors := True\<rparr>) =
        ([Anchors_sizes [[32], [64], [128], [256], [512]],
          Anchors_aspect_ratios [[1 / 2, 1], [1 / 2, 1], [1 / 2, 1], [1 / 2, 1], [1 / 2, 1]]],
         Inr (FasterRCNN mdl)) \<and>
      rpn.nms_thresh (rpn mdl) = 4 / 5 \<and> rpn.score_thresh (rpn mdl) = 1 / 100 \<and>
      roi_heads mdl = Library_heads rh \<and>
      roi_heads.nms_thresh rh = 9 / 20 \<and> roi_heads.score_thresh rh = 1 / 10 \<and>
      detections_per_img rh = 50 \<and>
      high_threshold (roi_heads.proposal_matcher rh) = 3 / 5 \<and>
      low_threshold (roi_heads.proposal_matcher rh) = 2 / 5 \<and>
      rpn.anchor_generator (rpn mdl) =
        AnchorGenerator [[32], [64], [128], [256], [512]]
          [[1 / 2, 1], [1 / 2, 1], [1 / 2, 1], [1 / 2, 1], [1 / 2, 1]])
   \<and> create_model example_torchvision 4 10
        (example_args\<lparr>model := ''ssd'', box_nms_threshold := 1 / 11\<rparr>) =
       create_model example_torchvision 4 10 (example_args\<lparr>model := ''ssd''\<rparr>)"
proof -
  obtain out d where r: "create_model example_torchvision 4 10
      (example_args\<lparr>custom_anchors := True\<rparr>) = (out, Inr d)"
    and out: "out = [Anchors_sizes [[32], [64], [128], [256], [512]],
          Anchors_aspect_ratios [[1 / 2, 1], [1 / 2, 1], [1 / 2, 1], [1 / 2, 1], [1 / 2, 1]]]"
    by (simp add: create_model_def create_fasterrcnn_eq Let_def example_args_def
        example_torchvision_def selected_sizes_def selected_aspect_ratios_def
        AnchorGenerator_def eval_nat_numeral)
  from create_model_reflects_flags [of "example_args\<lparr>custom_anchors := True\<rparr>"
      example_torchvision 4 10 out d] r
  have "\<exists>mdl rh. d = FasterRCNN mdl \<and>
      rpn.nms_thresh (rpn mdl) = 4 / 5 \<and> rpn.score_thresh (rpn mdl) = 1 / 100 \<and>
      roi_heads mdl = Library_heads rh \<and>
      roi_heads.nms_thresh rh = 9 / 20 \<and> roi_heads.score_thresh rh = 1 / 10 \<and>
      detections_per_img rh = 50 \<and>
      high_threshold (roi_heads.proposal_matcher rh) = 3 / 5 \<and>
      low_threshold (roi_heads.proposal_matcher rh) = 2 / 5 \<and>
      rpn.anchor_generator (rpn mdl) =
        AnchorGenerator [[32], [64], [128], [256], [512]]
          [[1 / 2, 1], [1 / 2, 1], [1 / 2, 1], [1 / 2, 1], [1 / 2, 1]]"
    by (simp add: example_args_def selected_sizes_def selected_aspect_ratios_def
        eval_nat_numeral) blast
  moreover have "create_model example_torchvision 4 10
        (example_args\<lparr>model := ''ssd'', box_nms_threshold := 1 / 11\<rparr>) =
       create_model example_torchvision 4 10 (example_args\<lparr>model := ''ssd''\<rparr>)"
    using create_model_reflects_flags [of "example_args\<lparr>model := ''ssd''\<rparr>"
      example_torchvision 4 10 out d "example_args\<lparr>model := ''ssd'', box_nms_threshold := 1 / 11\<rparr>"]
    by (simp add: example_args_def)
  ultimately show ?thesis using r out by auto
qed

end
